theory Spec2Isabelle
  imports Complex_Main
begin

section \<open>Floating-point values and arrays\<close>

text \<open>
  The source computes on NumPy arrays of \<^verbatim>\<open>float64\<close>. A value is modelled as a real
  number or one of the three special values of IEEE 754; arithmetic on finite values is
  exact (no rounding, no overflow) and follows IEEE 754 on the special values. Zero is
  unsigned: \<^verbatim>\<open>x / 0\<close> takes the sign of \<^verbatim>\<open>x\<close>. What \<^verbatim>\<open>float64\<close> rounding decides, such
  as the sign of a divergence between two nearly equal distributions, is outside this
  model, and no statement below rests on it.
\<close>

datatype npfloat = Fin real | PInf | NInf | NaN

fun isfinite :: "npfloat \<Rightarrow> bool" where
  "isfinite (Fin x) = True"
| "isfinite PInf = False"
| "isfinite NInf = False"
| "isfinite NaN = False"

fun fadd :: "npfloat \<Rightarrow> npfloat \<Rightarrow> npfloat" where
  "fadd (Fin x) (Fin y) = Fin (x + y)"
| "fadd (Fin x) PInf = PInf"
| "fadd (Fin x) NInf = NInf"
| "fadd PInf (Fin y) = PInf"
| "fadd PInf PInf = PInf"
| "fadd PInf NInf = NaN"
| "fadd NInf (Fin y) = NInf"
| "fadd NInf PInf = NaN"
| "fadd NInf NInf = NInf"
| "fadd NaN y = NaN"
| "fadd x NaN = NaN"

fun fmul :: "npfloat \<Rightarrow> npfloat \<Rightarrow> npfloat" where
  "fmul (Fin x) (Fin y) = Fin (x * y)"
| "fmul (Fin x) PInf = (if x = 0 then NaN else if 0 < x then PInf else NInf)"
| "fmul (Fin x) NInf = (if x = 0 then NaN else if 0 < x then NInf else PInf)"
| "fmul PInf (Fin y) = (if y = 0 then NaN else if 0 < y then PInf else NInf)"
| "fmul NInf (Fin y) = (if y = 0 then NaN else if 0 < y then NInf else PInf)"
| "fmul PInf PInf = PInf"
| "fmul PInf NInf = NInf"
| "fmul NInf PInf = NInf"
| "fmul NInf NInf = PInf"
| "fmul NaN y = NaN"
| "fmul x NaN = NaN"

fun fdiv :: "npfloat \<Rightarrow> npfloat \<Rightarrow> npfloat" where
  "fdiv (Fin x) (Fin y) =
     (if y = 0 then (if x = 0 then NaN else if 0 < x then PInf else NInf)
      else Fin (x / y))"
| "fdiv (Fin x) PInf = Fin 0"
| "fdiv (Fin x) NInf = Fin 0"
| "fdiv PInf (Fin y) = (if 0 \<le> y then PInf else NInf)"
| "fdiv NInf (Fin y) = (if 0 \<le> y then NInf else PInf)"
| "fdiv PInf PInf = NaN"
| "fdiv PInf NInf = NaN"
| "fdiv NInf PInf = NaN"
| "fdiv NInf NInf = NaN"
| "fdiv NaN y = NaN"
| "fdiv x NaN = NaN"

text \<open>\<^verbatim>\<open>np.log\<close> and \<^verbatim>\<open>np.exp\<close>, elementwise.\<close>

fun flog :: "npfloat \<Rightarrow> npfloat" where
  "flog (Fin x) = (if 0 < x then Fin (ln x) else if x = 0 then NInf else NaN)"
| "flog PInf = PInf"
| "flog NInf = NaN"
| "flog NaN = NaN"

fun fexp :: "npfloat \<Rightarrow> npfloat" where
  "fexp (Fin x) = Fin (exp x)"
| "fexp PInf = PInf"
| "fexp NInf = Fin 0"
| "fexp NaN = NaN"

text \<open>
  \<^verbatim>\<open>np.clip(x, lo, hi)\<close> is \<^verbatim>\<open>minimum(maximum(x, lo), hi)\<close> with finite bounds; a NaN
  stays a NaN.
\<close>

fun fclip :: "real \<Rightarrow> real \<Rightarrow> npfloat \<Rightarrow> npfloat" where
  "fclip lo hi (Fin x) = Fin (min (max x lo) hi)"
| "fclip lo hi PInf = Fin hi"
| "fclip lo hi NInf = Fin (min lo hi)"
| "fclip lo hi NaN = NaN"

type_synonym arr1 = "npfloat list"
type_synonym arr2 = "npfloat list list"
type_synonym arr3 = "npfloat list list list"
type_synonym arr4 = "npfloat list list list list"

text \<open>\<^verbatim>\<open>np.sum\<close> along the last axis of a row; the sum of no element is 0.\<close>

fun fsum :: "arr1 \<Rightarrow> npfloat" where
  "fsum [] = Fin 0"
| "fsum (x # xs) = fadd x (fsum xs)"

datatype error = IndexError | ValueError | ZeroDivisionError | SystemExit string

text \<open>The first element that raises ends the computation.\<close>

fun sequence :: "(error + 'a) list \<Rightarrow> error + 'a list" where
  "sequence [] = Inr []"
| "sequence (x # xs) =
     (case x of
        Inl e \<Rightarrow> Inl e
      | Inr v \<Rightarrow> (case sequence xs of Inl e \<Rightarrow> Inl e | Inr vs \<Rightarrow> Inr (v # vs)))"

text \<open>
  NumPy broadcasting of a binary operation along one axis of two arrays of the same
  rank: equal lengths pair up, an axis of length 1 is stretched, anything else is
  \<^verbatim>\<open>ValueError: operands could not be broadcast together\<close>. The operation on the
  elements is the broadcast along the next axis.
\<close>

definition broadcast ::
  "('a \<Rightarrow> 'b \<Rightarrow> error + 'c) \<Rightarrow> 'a list \<Rightarrow> 'b list \<Rightarrow> error + 'c list" where
  "broadcast f xs ys =
     (if length xs = length ys then sequence (map2 f xs ys)
      else if length xs = 1 then sequence (map (f (hd xs)) ys)
      else if length ys = 1 then sequence (map (\<lambda>x. f x (hd ys)) xs)
      else Inl ValueError)"

definition elementwise :: "('a \<Rightarrow> 'b \<Rightarrow> 'c) \<Rightarrow> 'a \<Rightarrow> 'b \<Rightarrow> error + 'c" where
  "elementwise f x y = Inr (f x y)"

definition bcast1 :: "('a \<Rightarrow> 'b \<Rightarrow> 'c) \<Rightarrow> 'a list \<Rightarrow> 'b list \<Rightarrow> error + 'c list" where
  "bcast1 f = broadcast (elementwise f)"

definition bcast2 ::
  "('a \<Rightarrow> 'b \<Rightarrow> 'c) \<Rightarrow> 'a list list \<Rightarrow> 'b list list \<Rightarrow> error + 'c list list" where
  "bcast2 f = broadcast (bcast1 f)"

definition bcast3 ::
  "('a \<Rightarrow> 'b \<Rightarrow> 'c) \<Rightarrow> 'a list list list \<Rightarrow> 'b list list list
     \<Rightarrow> error + 'c list list list" where
  "bcast3 f = broadcast (bcast2 f)"

section \<open>Divergence engine\<close>

text \<open>
  \<^verbatim>\<open>kl_div(p, q)\<close>, on the rank-3 arrays \<^verbatim>\<open>compute_influence_reward\<close> passes:
  \<^verbatim>\<open>
  kl = np.sum(np.where(p != 0, p * np.log(p / q), 0), axis=-1)
  if np.all(np.isfinite(kl)): return kl
  else: return np.zeros(kl.shape)
  \<close>
\<close>

definition kl_term :: "npfloat \<Rightarrow> npfloat \<Rightarrow> npfloat" where
  "kl_term p q = (if p \<noteq> Fin 0 then fmul p (flog (fdiv p q)) else Fin 0)"

definition kl_div :: "arr3 \<Rightarrow> arr3 \<Rightarrow> error + arr2" where
  "kl_div p q =
     (case bcast3 kl_term p q of
        Inl e \<Rightarrow> Inl e
      | Inr w \<Rightarrow>
          (let kl = map (map fsum) w
           in if list_all (list_all isfinite) kl then Inr kl
              else Inr (map (map (\<lambda>x. Fin 0)) kl)))"

text \<open>
  The \<^verbatim>\<open>jsd\<close> branch of \<^verbatim>\<open>compute_influence_reward\<close>:
  \<^verbatim>\<open>
  mean_probs = 0.5 * (true_probs + marginal_probs)
  influence_per_agent_step = (0.5 * kl_div(true_probs, mean_probs) +
                              0.5 * kl_div(marginal_probs, mean_probs))
  \<close>
\<close>

definition jsd :: "arr3 \<Rightarrow> arr3 \<Rightarrow> error + arr2" where
  "jsd true_probs marginal_probs =
     (case bcast3 fadd true_probs marginal_probs of
        Inl e \<Rightarrow> Inl e
      | Inr s \<Rightarrow>
          (let mean_probs = map (map (map (fmul (Fin (1/2))))) s
           in case kl_div true_probs mean_probs of
                Inl e \<Rightarrow> Inl e
              | Inr k1 \<Rightarrow>
                  (case kl_div marginal_probs mean_probs of
                     Inl e \<Rightarrow> Inl e
                   | Inr k2 \<Rightarrow>
                       bcast2 fadd (map (map (fmul (Fin (1/2)))) k1)
                         (map (map (fmul (Fin (1/2)))) k2))))"

section \<open>Policy configuration and curriculum scheduler\<close>

text \<open>The keys that \<^verbatim>\<open>CONFIG.update\<close> adds to the trainer's configuration.\<close>

record config =
  cfg_num_other_agents :: nat
  cfg_moa_weight :: real
  cfg_train_moa_only_when_visible :: bool
  cfg_influence_reward_clip :: real
  cfg_influence_reward_weight :: real
  cfg_influence_curriculum_steps :: real
  cfg_influence_scaledown_start :: real
  cfg_influence_scaledown_end :: real
  cfg_influence_scaledown_final_val :: real
  cfg_influence_only_when_visible :: bool
  cfg_influence_divergence_measure :: string

definition CONFIG :: config where
  "CONFIG =
     \<lparr> cfg_num_other_agents = 1,
       cfg_moa_weight = 10,
       cfg_train_moa_only_when_visible = True,
       cfg_influence_reward_clip = 10,
       cfg_influence_reward_weight = 1,
       cfg_influence_curriculum_steps = 10000000,
       cfg_influence_scaledown_start = 100000000,
       cfg_influence_scaledown_end = 300000000,
       cfg_influence_scaledown_final_val = 1/2,
       cfg_influence_only_when_visible = True,
       cfg_influence_divergence_measure = ''kl'' \<rparr>"

text \<open>
  The attributes that \<^verbatim>\<open>ConfigInitializerMixIn\<close> and \<^verbatim>\<open>InfluenceScheduleMixIn\<close> set on
  the policy object. \<^verbatim>\<open>steps_processed\<close> is a Python integer.
\<close>

record policy =
  train_moa_only_when_visible :: bool
  num_other_agents :: nat
  moa_weight :: real
  influence_divergence_measure :: string
  influence_only_when_visible :: bool
  influence_reward_clip :: real
  influence_reward_weight :: real
  influence_curriculum_steps :: real
  inf_scale_start :: real
  inf_scale_end :: real
  inf_scale_final_val :: real
  steps_processed :: int
  curr_influence_weight :: real

definition ConfigInitializerMixIn_init :: "config \<Rightarrow> policy \<Rightarrow> policy" where
  "ConfigInitializerMixIn_init cfg self =
     self\<lparr> train_moa_only_when_visible := cfg_train_moa_only_when_visible cfg,
           num_other_agents := cfg_num_other_agents cfg,
           moa_weight := cfg_moa_weight cfg,
           influence_divergence_measure := cfg_influence_divergence_measure cfg,
           influence_only_when_visible := cfg_influence_only_when_visible cfg,
           influence_reward_clip := cfg_influence_reward_clip cfg \<rparr>"

definition InfluenceScheduleMixIn_init :: "config \<Rightarrow> policy \<Rightarrow> policy" where
  "InfluenceScheduleMixIn_init cfg self =
     self\<lparr> influence_reward_weight := cfg_influence_reward_weight cfg,
           influence_curriculum_steps := cfg_influence_curriculum_steps cfg,
           inf_scale_start := cfg_influence_scaledown_start cfg,
           inf_scale_end := cfg_influence_scaledown_end cfg,
           inf_scale_final_val := cfg_influence_scaledown_final_val cfg,
           steps_processed := 0,
           curr_influence_weight := cfg_influence_reward_weight cfg \<rparr>"

text \<open>
  \<^verbatim>\<open>setup_mixins\<close>, restricted to the two mixins this file defines (the others belong
  to the training framework and set none of the attributes above).
\<close>

definition setup_mixins :: "policy \<Rightarrow> config \<Rightarrow> policy" where
  "setup_mixins pol cfg = ConfigInitializerMixIn_init cfg (InfluenceScheduleMixIn_init cfg pol)"

text \<open>
  \<^verbatim>\<open>InfluenceScheduleMixIn.current_influence_curriculum_weight\<close>. The method stores the
  weight in \<^verbatim>\<open>self.curr_influence_weight\<close>; its operands are Python numbers, so a
  division by zero raises.
\<close>

definition current_influence_curriculum_weight :: "policy \<Rightarrow> error + policy" where
  "current_influence_curriculum_weight self =
     (if real_of_int (steps_processed self) < influence_curriculum_steps self then
        (if influence_curriculum_steps self = 0 then Inl ZeroDivisionError
         else
           (let percent = real_of_int (steps_processed self) / influence_curriculum_steps self
            in Inr (self\<lparr>curr_influence_weight := percent * influence_reward_weight self\<rparr>)))
      else if inf_scale_start self < real_of_int (steps_processed self) then
        (if inf_scale_end self - inf_scale_start self = 0 then Inl ZeroDivisionError
         else
           (let percent = (real_of_int (steps_processed self) - inf_scale_start self)
                            / (inf_scale_end self - inf_scale_start self);
                diff = influence_reward_weight self - inf_scale_final_val self;
                scaled = influence_reward_weight self - diff * percent
            in Inr (self\<lparr>curr_influence_weight := max (inf_scale_final_val self) scaled\<rparr>)))
      else Inr (self\<lparr>curr_influence_weight := influence_reward_weight self\<rparr>))"

section \<open>Trajectories\<close>

text \<open>
  \<^verbatim>\<open>counterfactual_actions\<close> is read both with four indices and through a reshape, so
  its rank is part of the value.
\<close>

datatype ndarray = Rank3 arr3 | Rank4 arr4

fun shape0 :: "ndarray \<Rightarrow> nat" where
  "shape0 (Rank3 a) = length a"
| "shape0 (Rank4 a) = length a"

fun ravel :: "ndarray \<Rightarrow> arr1" where
  "ravel (Rank3 a) = concat (concat a)"
| "ravel (Rank4 a) = concat (concat (concat a))"

text \<open>
  The sample batch: a dictionary keyed by field name. The two keys that
  \<^verbatim>\<open>compute_influence_reward\<close> adds are absent (\<open>None\<close>) before it runs; every key the
  function never names lives in the record's extension.
\<close>

record 'o trajectory =
  obs :: "'o list"
  actions :: "int list"
  rewards :: arr1
  dones :: "bool list"
  action_logits :: arr2
  counterfactual_actions :: ndarray
  others_visibility :: arr2
  others_actions :: "int list list"
  all_actions :: "int list list"
  total_influence :: "arr1 option"
  reward_without_influence :: "arr1 option"

section \<open>Marginalization engine\<close>

text \<open>
  \<^verbatim>\<open>scipy.special.softmax\<close> along the last axis, by its definition
  \<^verbatim>\<open>exp(x) / sum(exp(x))\<close>, and the renormalization \<^verbatim>\<open>a / a.sum(axis=-1, keepdims=1)\<close>.
\<close>

definition normalize :: "arr1 \<Rightarrow> arr1" where
  "normalize xs = map (\<lambda>x. fdiv x (fsum xs)) xs"

definition softmax :: "arr1 \<Rightarrow> arr1" where
  "softmax xs = normalize (map fexp xs)"

text \<open>
  \<^verbatim>\<open>np.reshape(a, [d0, d1, -1])\<close> and \<^verbatim>\<open>np.reshape(a, [d0, d1, -1, d3])\<close> on the
  row-major elements of \<^verbatim>\<open>a\<close>: the free axis gets the remaining size, which must exist.
\<close>

definition reshape3 :: "nat \<Rightarrow> nat \<Rightarrow> arr1 \<Rightarrow> error + arr3" where
  "reshape3 d0 d1 flat =
     (let m = d0 * d1
      in if m = 0 \<or> length flat mod m \<noteq> 0 then Inl ValueError
         else
           (let x = length flat div m
            in Inr (map (\<lambda>i. map (\<lambda>j. take x (drop ((i * d1 + j) * x) flat)) [0..<d1])
                      [0..<d0])))"

definition reshape4 :: "nat \<Rightarrow> nat \<Rightarrow> nat \<Rightarrow> arr1 \<Rightarrow> error + arr4" where
  "reshape4 d0 d1 d3 flat =
     (let m = d0 * d1 * d3
      in if m = 0 \<or> length flat mod m \<noteq> 0 then Inl ValueError
         else
           (let x = length flat div m
            in Inr (map (\<lambda>i. map (\<lambda>j. map (\<lambda>k.
                           take d3 (drop (((i * d1 + j) * x + k) * d3) flat)) [0..<x])
                         [0..<d1])
                      [0..<d0])))"

text \<open>\<^verbatim>\<open>a.shape[-1]\<close> of a rank-2 array with at least one row.\<close>

definition last_dim :: "arr2 \<Rightarrow> nat" where
  "last_dim a = (case a of [] \<Rightarrow> 0 | r # rs \<Rightarrow> length r)"

text \<open>\<^verbatim>\<open>np.sum(block, axis=-2)\<close> of a block of rows of length \<open>n\<close>.\<close>

definition sum_rows :: "nat \<Rightarrow> arr2 \<Rightarrow> arr1" where
  "sum_rows n block = foldr (map2 fadd) block (replicate n (Fin 0))"

text \<open>
  \<^verbatim>\<open>np.tile(a, [1, n, 1])\<close> of a rank-2 array: NumPy first promotes \<^verbatim>\<open>a\<close> to rank 3 by
  a new leading axis of length 1, then repeats it \<open>n\<close> times along the middle axis.
\<close>

definition tile :: "nat \<Rightarrow> arr2 \<Rightarrow> arr3" where
  "tile n a = [concat (replicate n a)]"

definition marginalize_predictions_over_own_actions ::
  "policy \<Rightarrow> 'o trajectory \<Rightarrow> error + arr3" where
  "marginalize_predictions_over_own_actions pol traj =
     (let action_probs = map softmax (action_logits traj);
          action_probs = map normalize action_probs;
          counter_probs = counterfactual_actions traj
      in case reshape4 (shape0 counter_probs) (num_other_agents pol) (last_dim action_probs)
                (ravel counter_probs) of
           Inl e \<Rightarrow> Inl e
         | Inr counter_probs \<Rightarrow>
             (let counter_probs = map (map (map softmax)) counter_probs;
                  marginal_probs = map (map (sum_rows (last_dim action_probs))) counter_probs;
                  tiled_probs = tile (num_other_agents pol) action_probs
              in case bcast3 fmul marginal_probs tiled_probs of
                   Inl e \<Rightarrow> Inl e
                 | Inr marginal_probs \<Rightarrow> Inr (map (map normalize) marginal_probs)))"

section \<open>Influence reward computer\<close>

text \<open>
  \<^verbatim>\<open>a[traj_index, :, actions, :]\<close>: the two index arrays are broadcast against each
  other, every index is checked against its axis (a negative action counts from the
  end), and the indexed axis comes first in the result. An array of rank 3 has too few
  axes.
\<close>

definition index_pairs :: "nat list \<Rightarrow> int list \<Rightarrow> error + (nat \<times> int) list" where
  "index_pairs is js =
     (if length is = length js then Inr (zip is js)
      else if length is = 1 then Inr (map (\<lambda>j. (hd is, j)) js)
      else if length js = 1 then Inr (map (\<lambda>i. (i, hd js)) is)
      else Inl IndexError)"

definition take_action :: "int \<Rightarrow> arr2 \<Rightarrow> error + arr1" where
  "take_action a block =
     (let n = int (length block)
      in if - n \<le> a \<and> a < n then Inr (block ! nat (if a < 0 then a + n else a))
         else Inl IndexError)"

definition fancy_index :: "ndarray \<Rightarrow> nat list \<Rightarrow> int list \<Rightarrow> error + arr3" where
  "fancy_index a is js =
     (case a of
        Rank3 a3 \<Rightarrow> Inl IndexError
      | Rank4 a4 \<Rightarrow>
          (case index_pairs is js of
             Inl e \<Rightarrow> Inl e
           | Inr ps \<Rightarrow>
               sequence (map (\<lambda>(i, j).
                   if i < length a4 then sequence (map (take_action j) (a4 ! i))
                   else Inl IndexError) ps)))"

text \<open>Lines 200 to 205: the predictions under the actions that were taken.\<close>

definition true_probs :: "policy \<Rightarrow> 'o trajectory \<Rightarrow> error + arr3" where
  "true_probs pol traj =
     (case fancy_index (counterfactual_actions traj) [0..<length (obs traj)] (actions traj) of
        Inl e \<Rightarrow> Inl e
      | Inr tp \<Rightarrow>
          (case reshape3 (length tp) (num_other_agents pol) (concat (concat tp)) of
             Inl e \<Rightarrow> Inl e
           | Inr tp \<Rightarrow> Inr (map (map (\<lambda>row. normalize (softmax row))) tp)))"

text \<open>Lines 211 to 218: the configured divergence, or \<^verbatim>\<open>sys.exit\<close> with the message.\<close>

definition influence_per_agent_step :: "policy \<Rightarrow> arr3 \<Rightarrow> arr3 \<Rightarrow> error + arr2" where
  "influence_per_agent_step pol tp mp =
     (if influence_divergence_measure pol = ''kl'' then kl_div tp mp
      else if influence_divergence_measure pol = ''jsd'' then jsd tp mp
      else Inl (SystemExit ''Please specify an influence divergence measure from [kl, jsd]''))"

text \<open>
  Lines 221 to 226. \<^verbatim>\<open>a *= v\<close> works in place: \<^verbatim>\<open>v\<close> is broadcast to the shape of
  \<^verbatim>\<open>a\<close>, which is never stretched.
\<close>

definition broadcast_into ::
  "('a \<Rightarrow> 'b \<Rightarrow> error + 'a) \<Rightarrow> 'a list \<Rightarrow> 'b list \<Rightarrow> error + 'a list" where
  "broadcast_into f xs ys =
     (if length ys = length xs then sequence (map2 f xs ys)
      else if length ys = 1 then sequence (map (\<lambda>x. f x (hd ys)) xs)
      else Inl ValueError)"

definition imul2 :: "arr2 \<Rightarrow> arr2 \<Rightarrow> error + arr2" where
  "imul2 = broadcast_into (broadcast_into (elementwise fmul))"

definition apply_visibility :: "policy \<Rightarrow> 'o trajectory \<Rightarrow> arr2 \<Rightarrow> error + arr2" where
  "apply_visibility pol traj ipas =
     (if influence_only_when_visible pol then imul2 ipas (others_visibility traj)
      else Inr ipas)"

text \<open>Lines 229 and 230: sum over the last axis, then clip.\<close>

definition influence :: "policy \<Rightarrow> arr2 \<Rightarrow> arr1" where
  "influence pol ipas =
     map (\<lambda>row. fclip (- influence_reward_clip pol) (influence_reward_clip pol) (fsum row)) ipas"

text \<open>
  \<^verbatim>\<open>compute_influence_reward(policy, trajectory)\<close> mutates both arguments. The result
  carries their final state; when the call raises, it carries the error and the state
  the two objects are left in.
\<close>

definition compute_influence_reward ::
  "policy \<Rightarrow> 'o trajectory
     \<Rightarrow> (error \<times> policy \<times> 'o trajectory) + (policy \<times> 'o trajectory)" where
  "compute_influence_reward pol traj =
     (case true_probs pol traj of
        Inl e \<Rightarrow> Inl (e, pol, traj)
      | Inr tp \<Rightarrow>
     (case marginalize_predictions_over_own_actions pol traj of
        Inl e \<Rightarrow> Inl (e, pol, traj)
      | Inr mp \<Rightarrow>
     (case influence_per_agent_step pol tp mp of
        Inl e \<Rightarrow> Inl (e, pol, traj)
      | Inr ipas \<Rightarrow>
     (case apply_visibility pol traj ipas of
        Inl e \<Rightarrow> Inl (e, pol, traj)
      | Inr ipas \<Rightarrow>
          (let infl = influence pol ipas;
               pol1 = pol\<lparr>steps_processed := steps_processed pol + int (length (obs traj))\<rparr>;
               inf_weight = curr_influence_weight pol1;
               traj1 = traj\<lparr>total_influence := Some infl\<rparr>;
               traj2 = traj1\<lparr>reward_without_influence := Some (rewards traj1)\<rparr>
           in case bcast1 fadd (rewards traj2) (map (\<lambda>x. fmul x (Fin inf_weight)) infl) of
                Inl e \<Rightarrow> Inl (e, pol1, traj2)
              | Inr r \<Rightarrow> Inr (pol1, traj2\<lparr>rewards := r\<rparr>))))))"

section \<open>Reference definitions\<close>

text \<open>
  The sum of the specification's \<^verbatim>\<open>kl_divergence\<close>, per outer index:
  \<^verbatim>\<open>sum_a p[a] * log(p[a] / q[a])\<close>, a term with \<^verbatim>\<open>p[a] == 0\<close> contributing 0.
\<close>

definition kl_sums :: "arr3 \<Rightarrow> arr3 \<Rightarrow> arr2" where
  "kl_sums p q =
     map2 (map2 (\<lambda>pr qr. fsum (map2 (\<lambda>a b. if a = Fin 0 then Fin 0
                                              else fmul a (flog (fdiv a b))) pr qr))) p q"

text \<open>Two rank-3 arrays of identical shape.\<close>

definition same_shape3 :: "'a list list list \<Rightarrow> 'b list list list \<Rightarrow> bool" where
  "same_shape3 p q = list_all2 (list_all2 (\<lambda>r s. length r = length s)) p q"

text \<open>
  The suppression of section 7 of the specification, read element by element: a
  non-finite value becomes 0, every other value stays.
\<close>

definition suppress_per_element :: "arr2 \<Rightarrow> arr2" where
  "suppress_per_element kl = map (map (\<lambda>x. if isfinite x then x else Fin 0)) kl"

text \<open>The piecewise schedule of section 4.5 of the specification.\<close>

definition curriculum_weight :: "real \<Rightarrow> real \<Rightarrow> real \<Rightarrow> real \<Rightarrow> real \<Rightarrow> int \<Rightarrow> real" where
  "curriculum_weight weight curriculum_steps scale_start scale_end final_val steps =
     (if real_of_int steps < curriculum_steps then weight * (real_of_int steps / curriculum_steps)
      else if scale_start < real_of_int steps then
        max final_val
          (weight - (weight - final_val) * (real_of_int steps - scale_start)
                      / (scale_end - scale_start))
      else weight)"

text \<open>The diagnostic of the \<^verbatim>\<open>sys.exit\<close> call.\<close>

definition exit_message :: string where
  "exit_message = ''Please specify an influence divergence measure from [kl, jsd]''"

text \<open>
  The element of \<open>ys\<close> that in-place broadcasting pairs with position \<open>i\<close> of an axis of
  length \<open>n\<close>, and with it the visibility entry that is multiplied into entry \<open>(b, n)\<close> of
  the divergence array \<open>d\<close>.
\<close>

definition paired :: "'a list \<Rightarrow> nat \<Rightarrow> nat \<Rightarrow> 'a" where
  "paired ys n i = (if length ys = n then ys ! i else hd ys)"

definition visibility_at :: "arr2 \<Rightarrow> arr2 \<Rightarrow> nat \<Rightarrow> nat \<Rightarrow> npfloat" where
  "visibility_at v d b n = paired (paired v (length d) b) (length (d ! b)) n"

text \<open>
  The marginal of section 4.2 of the specification:
  \<^verbatim>\<open>marginal[b,n,:] = sum_own action_probs[b,own] * counterfactual_probs[b,n,own,:]\<close>,
  normalized along the last axis, with \<^verbatim>\<open>action_probs\<close> the renormalized softmax of the
  own logits and \<^verbatim>\<open>counterfactual_probs\<close> the softmax of the reshaped counterfactual
  logits.
\<close>

definition weighted_sum :: "nat \<Rightarrow> arr1 \<Rightarrow> arr2 \<Rightarrow> arr1" where
  "weighted_sum n probs block =
     foldr (map2 fadd) (map2 (\<lambda>w row. map (fmul w) row) probs block) (replicate n (Fin 0))"

definition marginal_claim :: "policy \<Rightarrow> 'o trajectory \<Rightarrow> error + arr3" where
  "marginal_claim pol traj =
     (let action_probs = map (\<lambda>row. normalize (softmax row)) (action_logits traj);
          counter = counterfactual_actions traj
      in case reshape4 (shape0 counter) (num_other_agents pol) (last_dim action_probs)
                (ravel counter) of
           Inl e \<Rightarrow> Inl e
         | Inr logits \<Rightarrow>
             (let counterfactual_probs = map (map (map softmax)) logits
              in Inr (map2 (\<lambda>probs blocks.
                        map (\<lambda>block. normalize (weighted_sum (last_dim action_probs) probs block))
                          blocks)
                      action_probs counterfactual_probs)))"

text \<open>
  The per-step influence as the comments of \<^verbatim>\<open>compute_influence_reward\<close> and section 4.4
  of the specification have it: the divergences between \<^verbatim>\<open>true_probs[b,n,:]\<close> and the
  marginal \<^verbatim>\<open>[b,n,:]\<close> of shape \<^verbatim>\<open>[B, N, A]\<close>, masked, summed over the axis of the N
  other agents and clipped.
\<close>

definition influence_claim :: "policy \<Rightarrow> 'o trajectory \<Rightarrow> error + arr1" where
  "influence_claim pol traj =
     (case true_probs pol traj of
        Inl e \<Rightarrow> Inl e
      | Inr tp \<Rightarrow>
     (case marginal_claim pol traj of
        Inl e \<Rightarrow> Inl e
      | Inr mp \<Rightarrow>
     (case influence_per_agent_step pol tp mp of
        Inl e \<Rightarrow> Inl e
      | Inr d \<Rightarrow>
     (case apply_visibility pol traj d of
        Inl e \<Rightarrow> Inl e
      | Inr ipas \<Rightarrow> Inr (influence pol ipas)))))"

section \<open>Example inputs\<close>

text \<open>
  Three distributions over two actions. Against \<open>Q1\<close>, the first row of \<open>P1\<close> has the
  divergence \<open>ln 2\<close>, the second is degenerate (\<^verbatim>\<open>q == 0\<close> where \<^verbatim>\<open>p > 0\<close>) and the third
  has \<^verbatim>\<open>q == 0\<close> only where \<^verbatim>\<open>p == 0\<close>.
\<close>

definition P1 :: arr3 where
  "P1 = [[[Fin 1, Fin 0], [Fin 1, Fin 0], [Fin 0, Fin 1]]]"

definition Q1 :: arr3 where
  "Q1 = [[[Fin (1/2), Fin (1/2)], [Fin 0, Fin 1], [Fin 0, Fin 1]]]"

text \<open>
  A policy with the schedule of the specification's examples: weight 1, ramp-up over
  100 steps, scale-down from step 100 to step 300 down to 0.5; \<open>n\<close> steps processed.
\<close>

definition pol_ramp :: "int \<Rightarrow> policy" where
  "pol_ramp n =
     \<lparr> train_moa_only_when_visible = True, num_other_agents = 1, moa_weight = 10,
       influence_divergence_measure = ''kl'', influence_only_when_visible = True,
       influence_reward_clip = 10, influence_reward_weight = 1,
       influence_curriculum_steps = 100, inf_scale_start = 100, inf_scale_end = 300,
       inf_scale_final_val = 1/2, steps_processed = n, curr_influence_weight = 1 \<rparr>"

text \<open>
  A policy object before the mixins have run, and the policy that \<open>setup_mixins\<close> makes
  of it under the default configuration.
\<close>

definition blank_policy :: policy where
  "blank_policy =
     \<lparr> train_moa_only_when_visible = False, num_other_agents = 0, moa_weight = 0,
       influence_divergence_measure = [], influence_only_when_visible = False,
       influence_reward_clip = 0, influence_reward_weight = 0,
       influence_curriculum_steps = 0, inf_scale_start = 0, inf_scale_end = 0,
       inf_scale_final_val = 0, steps_processed = 0, curr_influence_weight = 0 \<rparr>"

definition default_policy :: policy where
  "default_policy = setup_mixins blank_policy CONFIG"

text \<open>
  One step, one other agent, two actions. The agent took action 0, under which the other
  agent is predicted uniform; under action 1 the prediction is (1/3, 2/3). The influence
  of the step is \<open>influence0\<close>, the divergence of (1/2, 1/2) from (5/12, 7/12).
\<close>

definition traj0 :: "unit trajectory" where
  "traj0 = \<lparr> obs = [()], actions = [0], rewards = [Fin 3], dones = [False],
     action_logits = [[Fin 0, Fin 0]],
     counterfactual_actions = Rank4 [[[[Fin 0, Fin 0], [Fin 0, Fin (ln 2)]]]],
     others_visibility = [[Fin 1]], others_actions = [[0]], all_actions = [[0, 0]],
     total_influence = None, reward_without_influence = None \<rparr>"

definition influence0 :: real where
  "influence0 = ln (6 / 5) / 2 + ln (6 / 7) / 2"

text \<open>Two steps, each the step of \<open>traj0\<close>, with one other agent.\<close>

definition traj_pair :: "unit trajectory" where
  "traj_pair = \<lparr> obs = [(), ()], actions = [0, 0], rewards = [Fin 3, Fin 3],
     dones = [False, False],
     action_logits = [[Fin 0, Fin 0], [Fin 0, Fin 0]],
     counterfactual_actions =
       Rank4 [[[[Fin 0, Fin 0], [Fin 0, Fin (ln 2)]]], [[[Fin 0, Fin 0], [Fin 0, Fin (ln 2)]]]],
     others_visibility = [[Fin 1], [Fin 1]], others_actions = [[0], [0]],
     all_actions = [[0, 0], [0, 0]],
     total_influence = None, reward_without_influence = None \<rparr>"

text \<open>The same step with the other agent invisible.\<close>

definition traj_invisible :: "unit trajectory" where
  "traj_invisible = traj0\<lparr>others_visibility := [[Fin 0]]\<rparr>"

text \<open>
  A configuration with an unknown divergence measure, its policy, and a trajectory whose
  action is outside the two actions of the agent.
\<close>

definition bad_config :: config where
  "bad_config = CONFIG\<lparr>cfg_influence_divergence_measure := ''l2''\<rparr>"

definition bad_policy :: policy where
  "bad_policy = setup_mixins blank_policy bad_config"

definition traj_bad_action :: "unit trajectory" where
  "traj_bad_action = traj0\<lparr>actions := [5]\<rparr>"

text \<open>
  Inputs of the marginalization with the counterfactual logits in the flat layout
  \<^verbatim>\<open>[B, N*A, A]\<close>: one step with own action probabilities (1/3, 2/3) and uniform
  predictions; two steps with one other agent; two steps with two other agents.
\<close>

definition traj_marg :: "unit trajectory" where
  "traj_marg = \<lparr> obs = [()], actions = [0], rewards = [Fin 0], dones = [False],
     action_logits = [[Fin 0, Fin (ln 2)]],
     counterfactual_actions = Rank3 [[[Fin 0, Fin 0], [Fin 0, Fin 0]]],
     others_visibility = [[Fin 1]], others_actions = [[0]], all_actions = [[0, 0]],
     total_influence = None, reward_without_influence = None \<rparr>"

definition traj_two_steps :: "unit trajectory" where
  "traj_two_steps = \<lparr> obs = [(), ()], actions = [0, 0], rewards = [Fin 0, Fin 0],
     dones = [False, False],
     action_logits = [[Fin 0, Fin 0], [Fin 0, Fin 0]],
     counterfactual_actions =
       Rank3 [[[Fin 0, Fin 0], [Fin 0, Fin 0]], [[Fin 0, Fin 0], [Fin 0, Fin 0]]],
     others_visibility = [[Fin 1], [Fin 1]], others_actions = [[0], [0]],
     all_actions = [[0, 0], [0, 0]],
     total_influence = None, reward_without_influence = None \<rparr>"

definition traj_two_agents :: "unit trajectory" where
  "traj_two_agents = traj_two_steps\<lparr> counterfactual_actions :=
       Rank3 [[[Fin 0, Fin 0], [Fin 0, Fin 0], [Fin 0, Fin 0], [Fin 0, Fin 0]],
              [[Fin 0, Fin 0], [Fin 0, Fin 0], [Fin 0, Fin 0], [Fin 0, Fin 0]]] \<rparr>"

section \<open>Properties of the divergence engine\<close>

lemma sequence_map_total: "sequence (map (\<lambda>z. Inr (g z)) zs) = Inr (map g zs)"
  by (induction zs) simp_all

lemma bcast1_same_length:
  "length xs = length ys \<Longrightarrow> bcast1 f xs ys = Inr (map2 f xs ys)"
  by (simp add: bcast1_def broadcast_def elementwise_def case_prod_unfold sequence_map_total)

lemma bcast2_same_shape:
  "list_all2 (\<lambda>r s. length r = length s) xs ys \<Longrightarrow> bcast2 f xs ys = Inr (map2 (map2 f) xs ys)"
proof -
  assume sh: "list_all2 (\<lambda>r s. length r = length s) xs ys"
  then have "sequence (map2 (bcast1 f) xs ys) = Inr (map2 (map2 f) xs ys)"
    by (induction rule: list_all2_induct) (simp_all add: bcast1_same_length)
  with sh show ?thesis
    by (simp add: bcast2_def broadcast_def list_all2_lengthD)
qed

lemma bcast3_same_shape:
  "same_shape3 xs ys \<Longrightarrow> bcast3 f xs ys = Inr (map2 (map2 (map2 f)) xs ys)"
proof -
  assume "same_shape3 xs ys"
  then have sh: "list_all2 (list_all2 (\<lambda>r s. length r = length s)) xs ys"
    by (simp add: same_shape3_def)
  then have "sequence (map2 (bcast2 f) xs ys) = Inr (map2 (map2 (map2 f)) xs ys)"
    by (induction rule: list_all2_induct) (simp_all add: bcast2_same_shape)
  with sh show ?thesis
    by (simp add: bcast3_def broadcast_def list_all2_lengthD)
qed

lemma kl_sums_alt: "kl_sums p q = map (map fsum) (map2 (map2 (map2 kl_term)) p q)"
proof -
  have t: "(\<lambda>a b. if a = Fin 0 then Fin 0 else fmul a (flog (fdiv a b))) = kl_term"
    by (intro ext) (simp add: kl_term_def)
  show ?thesis
    unfolding kl_sums_def t by (simp add: case_prod_unfold comp_def)
qed

text \<open>Whatever its arguments, a call of \<open>kl_div\<close> that returns, returns finite values.\<close>

lemma kl_div_finite: "kl_div p q = Inr r \<Longrightarrow> list_all (list_all isfinite) r"
  by (auto simp: kl_div_def Let_def list_all_iff split: sum.splits if_splits)

lemma kl_div_same_shape:
  assumes "same_shape3 p q"
  shows "kl_div p q = Inr (if list_all (list_all isfinite) (kl_sums p q) then kl_sums p q
                          else map (map (\<lambda>x. Fin 0)) (kl_sums p q))"
  using assms by (simp add: kl_div_def bcast3_same_shape kl_sums_alt Let_def)

lemma P1_Q1_shape: "same_shape3 P1 Q1"
  by (simp add: same_shape3_def P1_def Q1_def)

lemma kl_sums_P1_Q1: "kl_sums P1 Q1 = [[Fin (ln 2), PInf, Fin 0]]"
  by (simp add: kl_sums_def P1_def Q1_def)

text \<open>
  C4: on two arrays of identical shape, \<open>kl_div\<close> returns the sums
  \<^verbatim>\<open>sum_a p[a] * log(p[a] / q[a])\<close> (terms with \<^verbatim>\<open>p[a] == 0\<close> counting 0) when all of
  them are finite, and an all-zero array of the same shape otherwise; the array it
  returns is all-finite.
\<close>

theorem kl_div_spec:
  assumes "same_shape3 p q"
  shows "\<exists>r. kl_div p q = Inr r
           \<and> r = (if list_all (list_all isfinite) (kl_sums p q) then kl_sums p q
                  else map (map (\<lambda>x. Fin 0)) (kl_sums p q))
           \<and> list_all (list_all isfinite) r"
proof -
  have "kl_div p q = Inr (if list_all (list_all isfinite) (kl_sums p q) then kl_sums p q
                          else map (map (\<lambda>x. Fin 0)) (kl_sums p q))"
    using assms by (rule kl_div_same_shape)
  moreover from this have "list_all (list_all isfinite)
      (if list_all (list_all isfinite) (kl_sums p q) then kl_sums p q
       else map (map (\<lambda>x. Fin 0)) (kl_sums p q))"
    by (rule kl_div_finite)
  ultimately show ?thesis by blast
qed

theorem kl_div_spec_witness:
  "same_shape3 P1 Q1 \<and> kl_div P1 Q1 = Inr [[Fin 0, Fin 0, Fin 0]]"
  using kl_div_spec [of P1 Q1] P1_Q1_shape
  by (simp add: kl_sums_P1_Q1)

text \<open>
  C5, as the code has it: when any sum is non-finite, every element of the result is
  0, the finite ones included; only when all sums are finite does an element keep its
  computed value.
\<close>

theorem kl_div_whole_result_zeroed:
  assumes "same_shape3 p q" and "i < length (kl_sums p q)" and "j < length (kl_sums p q ! i)"
  shows "\<exists>r. kl_div p q = Inr r
           \<and> r ! i ! j = (if list_all (list_all isfinite) (kl_sums p q) then kl_sums p q ! i ! j
                          else Fin 0)"
  using assms by (simp add: kl_div_same_shape)

theorem kl_div_whole_result_zeroed_witness:
  "same_shape3 P1 Q1 \<and> 0 < length (kl_sums P1 Q1) \<and> 0 < length (kl_sums P1 Q1 ! 0)
   \<and> kl_sums P1 Q1 ! 0 ! 0 = Fin (ln 2)
   \<and> (\<exists>r. kl_div P1 Q1 = Inr r \<and> r ! 0 ! 0 = Fin 0)"
  using kl_div_whole_result_zeroed [of P1 Q1 0 0] P1_Q1_shape
  by (simp add: kl_sums_P1_Q1)

text \<open>
  C5 as stated fails on \<open>P1\<close> and \<open>Q1\<close>: the first sum is the finite \<open>ln 2\<close>, the second
  is infinite, and the result is zero everywhere rather than \<open>[ln 2, 0, 0]\<close>.
\<close>

theorem kl_div_per_element_counterexample:
  "kl_div P1 Q1 = Inr [[Fin 0, Fin 0, Fin 0]]
   \<and> suppress_per_element (kl_sums P1 Q1) = [[Fin (ln 2), Fin 0, Fin 0]]
   \<and> kl_div P1 Q1 \<noteq> Inr (suppress_per_element (kl_sums P1 Q1))"
  by (simp add: kl_div_same_shape P1_Q1_shape kl_sums_P1_Q1 suppress_per_element_def)

section \<open>Properties of the curriculum scheduler\<close>

text \<open>
  C8: \<open>current_influence_curriculum_weight\<close> stores the weight of the piecewise
  schedule (no division by zero assumed), and the schedule takes the values of the
  specification's examples.
\<close>

theorem current_influence_curriculum_weight_schedule:
  assumes "influence_curriculum_steps self \<noteq> 0"
    and "inf_scale_end self \<noteq> inf_scale_start self"
  shows "current_influence_curriculum_weight self =
           Inr (self\<lparr>curr_influence_weight :=
                  curriculum_weight (influence_reward_weight self) (influence_curriculum_steps self)
                    (inf_scale_start self) (inf_scale_end self) (inf_scale_final_val self)
                    (steps_processed self)\<rparr>)
         \<and> curriculum_weight 1 100 s e f 50 = 1/2
         \<and> curriculum_weight 1 100 s e f 0 = 0
         \<and> curriculum_weight 1 100 100 300 (1/2) 200 = 3/4
         \<and> curriculum_weight 1 100 100 300 (1/2) 300 = 1/2
         \<and> curriculum_weight 1 100 100 300 (1/2) 400 = 1/2"
proof -
  have "current_influence_curriculum_weight self =
           Inr (self\<lparr>curr_influence_weight :=
                  curriculum_weight (influence_reward_weight self) (influence_curriculum_steps self)
                    (inf_scale_start self) (inf_scale_end self) (inf_scale_final_val self)
                    (steps_processed self)\<rparr>)"
    using assms
    by (simp add: current_influence_curriculum_weight_def curriculum_weight_def Let_def
          mult.commute)
  then show ?thesis
    by (simp add: curriculum_weight_def)
qed

theorem current_influence_curriculum_weight_schedule_witness:
  "influence_curriculum_steps (pol_ramp 200) \<noteq> 0
   \<and> inf_scale_end (pol_ramp 200) \<noteq> inf_scale_start (pol_ramp 200)
   \<and> current_influence_curriculum_weight (pol_ramp 50)
       = Inr ((pol_ramp 50)\<lparr>curr_influence_weight := 1/2\<rparr>)
   \<and> current_influence_curriculum_weight (pol_ramp 0)
       = Inr ((pol_ramp 0)\<lparr>curr_influence_weight := 0\<rparr>)
   \<and> current_influence_curriculum_weight (pol_ramp 200)
       = Inr ((pol_ramp 200)\<lparr>curr_influence_weight := 3/4\<rparr>)
   \<and> current_influence_curriculum_weight (pol_ramp 300)
       = Inr ((pol_ramp 300)\<lparr>curr_influence_weight := 1/2\<rparr>)
   \<and> current_influence_curriculum_weight (pol_ramp 400)
       = Inr ((pol_ramp 400)\<lparr>curr_influence_weight := 1/2\<rparr>)"
  using current_influence_curriculum_weight_schedule [of "pol_ramp 50"]
    current_influence_curriculum_weight_schedule [of "pol_ramp 0"]
    current_influence_curriculum_weight_schedule [of "pol_ramp 200"]
    current_influence_curriculum_weight_schedule [of "pol_ramp 300"]
    current_influence_curriculum_weight_schedule [of "pol_ramp 400"]
  by (simp add: pol_ramp_def curriculum_weight_def)

section \<open>Properties of the Jensen-Shannon measure\<close>

lemma fadd_commute: "fadd a b = fadd b a"
  by (cases a; cases b) simp_all

lemma sequence_error: "sequence xs = Inl e \<Longrightarrow> Inl e \<in> set xs"
  by (induction xs arbitrary: e) (auto split: sum.splits)

lemma map2_swap: "map2 f xs ys = map2 (\<lambda>y x. f x y) ys xs"
  by (induction xs arbitrary: ys) (auto simp: zip_Cons1 split: list.splits)

lemma broadcast_swap:
  "broadcast f xs ys = broadcast (\<lambda>y x. f x y) ys xs"
proof -
  have "map2 f xs ys = map2 (\<lambda>y x. f x y) ys xs"
    by (rule map2_swap)
  then show ?thesis
    by (auto simp: broadcast_def)
qed

lemma bcast1_commute:
  assumes "\<And>a b. f a b = f b a"
  shows "bcast1 f xs ys = bcast1 f ys xs"
proof -
  have "(\<lambda>y x. elementwise f x y) = elementwise f"
    by (intro ext) (simp add: elementwise_def assms)
  then show ?thesis
    unfolding bcast1_def using broadcast_swap [of "elementwise f" xs ys] by simp
qed

lemma bcast2_commute:
  assumes "\<And>a b. f a b = f b a"
  shows "bcast2 f xs ys = bcast2 f ys xs"
proof -
  have "(\<lambda>y x. bcast1 f x y) = bcast1 f"
    by (intro ext) (rule bcast1_commute [OF assms])
  then show ?thesis
    unfolding bcast2_def using broadcast_swap [of "bcast1 f" xs ys] by simp
qed

lemma bcast3_commute:
  assumes "\<And>a b. f a b = f b a"
  shows "bcast3 f xs ys = bcast3 f ys xs"
proof -
  have "(\<lambda>y x. bcast2 f x y) = bcast2 f"
    by (intro ext) (rule bcast2_commute [OF assms])
  then show ?thesis
    unfolding bcast3_def using broadcast_swap [of "bcast2 f" xs ys] by simp
qed

lemma broadcast_error:
  assumes "broadcast f xs ys = Inl e" and "\<And>x y. f x y = Inl e \<Longrightarrow> e = ValueError"
  shows "e = ValueError"
  using assms by (auto simp: broadcast_def dest!: sequence_error split: if_splits)

lemma bcast1_error: "bcast1 f xs ys = Inl e \<Longrightarrow> e = ValueError"
  unfolding bcast1_def by (erule broadcast_error) (simp add: elementwise_def)

lemma bcast2_error: "bcast2 f xs ys = Inl e \<Longrightarrow> e = ValueError"
  unfolding bcast2_def by (erule broadcast_error) (rule bcast1_error)

lemma bcast3_error: "bcast3 f xs ys = Inl e \<Longrightarrow> e = ValueError"
  unfolding bcast3_def by (erule broadcast_error) (rule bcast2_error)

lemma kl_div_error: "kl_div p q = Inl e \<Longrightarrow> e = ValueError"
  by (auto simp: kl_div_def Let_def dest: bcast3_error split: sum.splits if_splits)

text \<open>
  The \<^verbatim>\<open>jsd\<close> branch is symmetric in its two arguments, errors included: the mean and
  the final sum use only that addition commutes.
\<close>

lemma jsd_commute: "jsd p q = jsd q p"
proof -
  have s: "bcast3 fadd q p = bcast3 fadd p q"
    by (rule bcast3_commute) (rule fadd_commute)
  have c: "bcast2 fadd a b = bcast2 fadd b a" for a b
    by (rule bcast2_commute) (rule fadd_commute)
  show ?thesis
    unfolding jsd_def s Let_def
    by (auto split: sum.splits dest!: kl_div_error simp: c)
qed

section \<open>Evaluation of the example inputs\<close>

lemmas setup_defs = setup_mixins_def ConfigInitializerMixIn_init_def
  InfluenceScheduleMixIn_init_def CONFIG_def blank_policy_def

lemmas array_defs = softmax_def normalize_def reshape4_def reshape3_def last_dim_def
  sum_rows_def tile_def bcast3_def bcast2_def bcast1_def broadcast_def elementwise_def
  fancy_index_def index_pairs_def take_action_def Let_def mod_Suc div_Suc
  kl_div_def kl_term_def jsd_def imul2_def broadcast_into_def

lemma default_policy_eq:
  "default_policy =
     \<lparr> train_moa_only_when_visible = True, num_other_agents = 1, moa_weight = 10,
       influence_divergence_measure = ''kl'', influence_only_when_visible = True,
       influence_reward_clip = 10, influence_reward_weight = 1,
       influence_curriculum_steps = 10000000, inf_scale_start = 100000000,
       inf_scale_end = 300000000, inf_scale_final_val = 1/2, steps_processed = 0,
       curr_influence_weight = 1 \<rparr>"
  by (simp add: default_policy_def setup_defs)

lemma true_probs_traj0: "true_probs default_policy traj0 = Inr [[[Fin (1/2), Fin (1/2)]]]"
  by (simp add: true_probs_def default_policy_eq traj0_def array_defs)

lemma marginal_traj0:
  "marginalize_predictions_over_own_actions default_policy traj0 = Inr [[[Fin (5/12), Fin (7/12)]]]"
  by (simp add: marginalize_predictions_over_own_actions_def default_policy_eq traj0_def array_defs)

lemma kl_traj0:
  "kl_div [[[Fin (1/2), Fin (1/2)]]] [[[Fin (5/12), Fin (7/12)]]] = Inr [[Fin influence0]]"
  by (simp add: array_defs influence0_def)

lemma influence0_bounds: "0 < influence0" "influence0 \<le> 10"
proof -
  have "ln ((6 / 5) * (6 / 7) :: real) = ln (6 / 5) + ln (6 / 7)"
    by (rule ln_mult_pos) simp_all
  then have "influence0 = ln (36 / 35) / 2"
    unfolding influence0_def by simp
  moreover have "0 < ln (36 / 35 :: real)"
    by (rule ln_gt_zero) simp
  moreover have "ln (36 / 35 :: real) \<le> 36 / 35 - 1"
    by (rule ln_le_minus_one) simp
  ultimately show "0 < influence0" "influence0 \<le> 10" by linarith+
qed

lemma compute_traj0:
  "compute_influence_reward default_policy traj0 =
     Inr (default_policy\<lparr>steps_processed := 1\<rparr>,
          traj0\<lparr>total_influence := Some [Fin influence0],
                reward_without_influence := Some [Fin 3],
                rewards := [Fin (3 + influence0)]\<rparr>)"
proof -
  have clip: "min (max influence0 (- 10)) 10 = influence0"
    using influence0_bounds by simp
  have vis: "apply_visibility default_policy traj0 [[Fin influence0]] = Inr [[Fin influence0]]"
    by (simp add: apply_visibility_def default_policy_eq traj0_def imul2_def broadcast_into_def
        elementwise_def)
  have infl: "influence default_policy [[Fin influence0]] = [Fin influence0]"
    by (simp add: influence_def default_policy_eq clip)
  have kl: "influence_per_agent_step default_policy [[[Fin (1/2), Fin (1/2)]]]
              [[[Fin (5/12), Fin (7/12)]]] = Inr [[Fin influence0]]"
    by (simp add: influence_per_agent_step_def default_policy_eq kl_traj0)
  show ?thesis
    unfolding compute_influence_reward_def true_probs_traj0 marginal_traj0 sum.case kl vis infl
    by (simp add: default_policy_eq traj0_def bcast1_def broadcast_def elementwise_def)
qed

lemma compute_traj_invisible:
  "compute_influence_reward default_policy traj_invisible =
     Inr (default_policy\<lparr>steps_processed := 1\<rparr>,
          traj_invisible\<lparr>total_influence := Some [Fin 0],
                reward_without_influence := Some [Fin 3], rewards := [Fin 3]\<rparr>)"
  by (simp add: compute_influence_reward_def true_probs_def
      marginalize_predictions_over_own_actions_def influence_per_agent_step_def
      apply_visibility_def influence_def default_policy_eq traj_invisible_def traj0_def array_defs)

lemma influence0_le: "influence0 \<le> 1 / 70"
proof -
  have "ln ((6 / 5) * (6 / 7) :: real) = ln (6 / 5) + ln (6 / 7)"
    by (rule ln_mult_pos) simp_all
  then have "influence0 = ln (36 / 35) / 2"
    unfolding influence0_def by simp
  moreover have "ln (36 / 35 :: real) \<le> 36 / 35 - 1"
    by (rule ln_le_minus_one) simp
  ultimately show ?thesis by linarith
qed

lemma true_probs_traj_pair:
  "true_probs default_policy traj_pair
     = Inr [[[Fin (1/2), Fin (1/2)]], [[Fin (1/2), Fin (1/2)]]]"
  by (simp add: true_probs_def default_policy_eq traj_pair_def array_defs)

lemma marginal_traj_pair:
  "marginalize_predictions_over_own_actions default_policy traj_pair
     = Inr [[[Fin (5/12), Fin (7/12)], [Fin (5/12), Fin (7/12)]],
            [[Fin (5/12), Fin (7/12)], [Fin (5/12), Fin (7/12)]]]"
  by (simp add: marginalize_predictions_over_own_actions_def default_policy_eq traj_pair_def
      array_defs)

lemma marginal_claim_traj_pair:
  "marginal_claim default_policy traj_pair
     = Inr [[[Fin (5/12), Fin (7/12)]], [[Fin (5/12), Fin (7/12)]]]"
  by (simp add: marginal_claim_def weighted_sum_def default_policy_eq traj_pair_def array_defs)

lemma divergence_traj_pair:
  "influence_per_agent_step default_policy
     [[[Fin (1/2), Fin (1/2)]], [[Fin (1/2), Fin (1/2)]]]
     [[[Fin (5/12), Fin (7/12)], [Fin (5/12), Fin (7/12)]],
      [[Fin (5/12), Fin (7/12)], [Fin (5/12), Fin (7/12)]]]
     = Inr [[Fin influence0, Fin influence0], [Fin influence0, Fin influence0]]"
  by (simp add: influence_per_agent_step_def default_policy_eq array_defs influence0_def)

lemma divergence_claim_traj_pair:
  "influence_per_agent_step default_policy
     [[[Fin (1/2), Fin (1/2)]], [[Fin (1/2), Fin (1/2)]]]
     [[[Fin (5/12), Fin (7/12)]], [[Fin (5/12), Fin (7/12)]]]
     = Inr [[Fin influence0], [Fin influence0]]"
  by (simp add: influence_per_agent_step_def default_policy_eq array_defs influence0_def)

section \<open>Arrays: sequencing and broadcasting\<close>

lemma sequence_length: "sequence zs = Inr r \<Longrightarrow> length r = length zs"
  by (induction zs arbitrary: r) (auto split: sum.splits)

lemma sequence_nth: "sequence zs = Inr r \<Longrightarrow> i < length zs \<Longrightarrow> zs ! i = Inr (r ! i)"
proof (induction zs arbitrary: r i)
  case Nil
  then show ?case by simp
next
  case (Cons z zs)
  then show ?case by (cases i) (auto split: sum.splits)
qed

lemma sequence_map_all:
  assumes "sequence (map g zs) = Inr r" and "\<And>z v. z \<in> set zs \<Longrightarrow> g z = Inr v \<Longrightarrow> R v"
  shows "list_all R r"
proof -
  have len: "length r = length zs"
    using sequence_length [OF assms(1)] by simp
  have "R (r ! i)" if "i < length r" for i
  proof -
    from that len have i: "i < length (map g zs)" by simp
    from sequence_nth [OF assms(1) i] i have "g (zs ! i) = Inr (r ! i)" by simp
    moreover from i have "zs ! i \<in> set zs" by simp
    ultimately show ?thesis by (rule assms(2) [rotated])
  qed
  then show ?thesis by (simp add: list_all_length)
qed

lemma hd_in_set_length_1: "length xs = 1 \<Longrightarrow> hd xs \<in> set xs"
  by (cases xs) simp_all

lemma broadcast_all:
  assumes "broadcast f xs ys = Inr r" and "list_all P xs" and "list_all Q ys"
    and "\<And>x y z. P x \<Longrightarrow> Q y \<Longrightarrow> f x y = Inr z \<Longrightarrow> R z"
  shows "list_all R r"
proof -
  have P: "x \<in> set xs \<Longrightarrow> P x" for x using assms(2) by (simp add: list_all_iff)
  have Q: "y \<in> set ys \<Longrightarrow> Q y" for y using assms(3) by (simp add: list_all_iff)
  consider (same) "length xs = length ys"
    | (left) "length xs \<noteq> length ys" "length xs = 1"
    | (right) "length xs \<noteq> length ys" "length xs \<noteq> 1" "length ys = 1"
    | (bad) "length xs \<noteq> length ys" "length xs \<noteq> 1" "length ys \<noteq> 1"
    by blast
  then show ?thesis
  proof cases
    case same
    with assms(1) have "sequence (map (\<lambda>(x, y). f x y) (zip xs ys)) = Inr r"
      by (simp add: broadcast_def)
    then show ?thesis
      by (rule sequence_map_all) (auto dest: set_zip_leftD set_zip_rightD intro: assms(4) P Q)
  next
    case left
    with assms(1) have "sequence (map (f (hd xs)) ys) = Inr r"
      by (simp add: broadcast_def)
    moreover from left(2) have "P (hd xs)"
      by (intro P hd_in_set_length_1)
    ultimately show ?thesis
      by (elim sequence_map_all) (auto intro: assms(4) Q)
  next
    case right
    with assms(1) have "sequence (map (\<lambda>x. f x (hd ys)) xs) = Inr r"
      by (simp add: broadcast_def)
    moreover from right(3) have "Q (hd ys)"
      by (intro Q hd_in_set_length_1)
    ultimately show ?thesis
      by (elim sequence_map_all) (auto intro: assms(4) P)
  next
    case bad
    with assms(1) show ?thesis by (simp add: broadcast_def)
  qed
qed

lemma broadcast_length:
  assumes "broadcast f xs ys = Inr r" and "length xs = length ys \<or> length ys = 1"
  shows "length r = length xs"
  using assms by (auto simp: broadcast_def dest!: sequence_length split: if_splits)

lemma broadcast_into_length:
  assumes "broadcast_into f xs ys = Inr r"
  shows "length r = length xs"
  using assms by (auto simp: broadcast_into_def dest!: sequence_length split: if_splits)

lemma broadcast_into_nth:
  assumes "broadcast_into f xs ys = Inr r" and "i < length xs"
  shows "f (xs ! i) (paired ys (length xs) i) = Inr (r ! i)"
proof (cases "length ys = length xs")
  case True
  with assms(1) have s: "sequence (map2 f xs ys) = Inr r"
    by (simp add: broadcast_into_def)
  from True assms(2) have "i < length (map2 f xs ys)" by simp
  from sequence_nth [OF s this] True assms(2) show ?thesis
    by (simp add: paired_def)
next
  case False
  with assms(1) have s: "sequence (map (\<lambda>x. f x (hd ys)) xs) = Inr r"
    by (simp add: broadcast_into_def split: if_splits)
  from assms(2) have "i < length (map (\<lambda>x. f x (hd ys)) xs)" by simp
  from sequence_nth [OF s this] False assms(2) show ?thesis
    by (simp add: paired_def)
qed

lemma paired_in_set:
  assumes "broadcast_into f xs ys = Inr r" and "i < length xs"
  shows "paired ys (length xs) i \<in> set ys"
  using assms
  by (auto simp: broadcast_into_def paired_def hd_in_set_length_1 split: if_splits)

lemma fadd_finite: "isfinite a \<Longrightarrow> isfinite b \<Longrightarrow> isfinite (fadd a b)"
  by (cases a; cases b) simp_all

lemma fmul_finite: "isfinite a \<Longrightarrow> isfinite b \<Longrightarrow> isfinite (fmul a b)"
  by (cases a; cases b) simp_all

lemma fsum_finite: "list_all isfinite xs \<Longrightarrow> isfinite (fsum xs)"
  by (induction xs) (simp_all add: fadd_finite)

lemma fsum_zeros: "list_all (\<lambda>x. x = Fin 0) xs \<Longrightarrow> fsum xs = Fin 0"
  by (induction xs) simp_all

lemma bcast1_all:
  assumes "bcast1 f xs ys = Inr r" and "list_all P xs" and "list_all Q ys"
    and "\<And>x y. P x \<Longrightarrow> Q y \<Longrightarrow> R (f x y)"
  shows "list_all R r"
  using assms(1) [unfolded bcast1_def] assms(2,3)
  by (rule broadcast_all) (auto simp: elementwise_def intro: assms(4))

lemma bcast2_all:
  assumes "bcast2 f xs ys = Inr r" and "list_all (list_all P) xs" and "list_all (list_all Q) ys"
    and "\<And>x y. P x \<Longrightarrow> Q y \<Longrightarrow> R (f x y)"
  shows "list_all (list_all R) r"
  using assms(1) [unfolded bcast2_def] assms(2,3)
  by (rule broadcast_all) (erule bcast1_all, assumption+, rule assms(4))

lemma jsd_finite:
  assumes "jsd p q = Inr r"
  shows "list_all (list_all isfinite) r"
proof -
  from assms obtain k1 k2 where
    k1: "list_all (list_all isfinite) k1" and k2: "list_all (list_all isfinite) k2"
    and r: "bcast2 fadd (map (map (fmul (Fin (1/2)))) k1) (map (map (fmul (Fin (1/2)))) k2) = Inr r"
    by (auto simp: jsd_def Let_def split: sum.splits dest: kl_div_finite)
  have h: "list_all (list_all isfinite) k \<Longrightarrow>
           list_all (list_all isfinite) (map (map (fmul (Fin (1/2)))) k)" for k
    by (simp add: list_all_iff fmul_finite)
  from r h [OF k1] h [OF k2] show ?thesis
    by (rule bcast2_all) (rule fadd_finite)
qed

lemma influence_per_agent_step_finite:
  "influence_per_agent_step pol tp mp = Inr d \<Longrightarrow> list_all (list_all isfinite) d"
  by (auto simp: influence_per_agent_step_def dest: kl_div_finite jsd_finite split: if_splits)

section \<open>Properties of the influence reward computer\<close>

text \<open>
  C10: a call of \<open>compute_influence_reward\<close> that returns has written the trajectory
  fields \<^verbatim>\<open>total_influence\<close>, \<^verbatim>\<open>reward_without_influence\<close> and \<^verbatim>\<open>rewards\<close> and nothing
  else of the trajectory, and has added the trajectory's length to \<^verbatim>\<open>steps_processed\<close>
  and changed nothing else of the policy.
\<close>

theorem compute_influence_reward_frame:
  assumes "compute_influence_reward pol traj = Inr (pol', traj')"
  shows "(\<exists>ti r. traj' = traj\<lparr>total_influence := Some ti,
                         reward_without_influence := Some (rewards traj), rewards := r\<rparr>)
         \<and> pol' = pol\<lparr>steps_processed := steps_processed pol + int (length (obs traj))\<rparr>"
  using assms
  by (auto simp: compute_influence_reward_def Let_def split: sum.splits)

theorem compute_influence_reward_frame_witness:
  "compute_influence_reward default_policy traj0 =
     Inr (default_policy\<lparr>steps_processed := 1\<rparr>,
          traj0\<lparr>total_influence := Some [Fin influence0],
                reward_without_influence := Some [Fin 3],
                rewards := [Fin (3 + influence0)]\<rparr>)
   \<and> default_policy\<lparr>steps_processed := 1\<rparr>
       = default_policy\<lparr>steps_processed := steps_processed default_policy + int (length (obs traj0))\<rparr>"
  using compute_influence_reward_frame [OF compute_traj0] compute_traj0 by simp

text \<open>
  C3, as the code has it: with a measure that is neither \<^verbatim>\<open>kl\<close> nor \<^verbatim>\<open>jsd\<close>, every call
  of \<open>compute_influence_reward\<close> fails and leaves the policy and the trajectory as they
  were; when the two probability arrays can be computed from the trajectory, the failure
  is the \<^verbatim>\<open>sys.exit\<close> with its diagnostic.
\<close>

theorem unknown_measure_exits_in_call:
  assumes "influence_divergence_measure pol \<noteq> ''kl''"
    and "influence_divergence_measure pol \<noteq> ''jsd''"
  shows "(\<exists>e. compute_influence_reward pol traj = Inl (e, pol, traj))
         \<and> ((\<exists>tp mp. true_probs pol traj = Inr tp
                \<and> marginalize_predictions_over_own_actions pol traj = Inr mp)
              \<longrightarrow> compute_influence_reward pol traj = Inl (SystemExit exit_message, pol, traj))"
  using assms
  by (auto simp: compute_influence_reward_def influence_per_agent_step_def exit_message_def
      split: sum.splits)

lemma bad_policy_eq:
  "bad_policy = default_policy\<lparr>influence_divergence_measure := ''l2''\<rparr>"
  by (simp add: bad_policy_def bad_config_def default_policy_def setup_defs)

lemma true_probs_measure [simp]:
  "true_probs (pol\<lparr>influence_divergence_measure := m\<rparr>) traj = true_probs pol traj"
  by (simp add: true_probs_def cong: sum.case_cong)

lemma marginalize_measure [simp]:
  "marginalize_predictions_over_own_actions (pol\<lparr>influence_divergence_measure := m\<rparr>) traj
     = marginalize_predictions_over_own_actions pol traj"
  by (simp add: marginalize_predictions_over_own_actions_def cong: sum.case_cong)

theorem unknown_measure_exits_in_call_witness:
  "influence_divergence_measure bad_policy \<noteq> ''kl''
   \<and> influence_divergence_measure bad_policy \<noteq> ''jsd''
   \<and> compute_influence_reward bad_policy traj0 = Inl (SystemExit exit_message, bad_policy, traj0)"
  using unknown_measure_exits_in_call [of bad_policy traj0]
  by (simp add: bad_policy_eq true_probs_traj0 marginal_traj0)

text \<open>
  C3 as stated fails: \<open>setup_mixins\<close> stores the unknown measure \<^verbatim>\<open>l2\<close> without a check;
  the exit happens in the call, after the trajectory was read: on a trajectory with an
  action out of range the same call ends in an \<^verbatim>\<open>IndexError\<close> instead.
\<close>

theorem unknown_measure_counterexample:
  "influence_divergence_measure (setup_mixins blank_policy bad_config) = ''l2''
   \<and> compute_influence_reward bad_policy traj0 = Inl (SystemExit exit_message, bad_policy, traj0)
   \<and> compute_influence_reward bad_policy traj_bad_action
       = Inl (IndexError, bad_policy, traj_bad_action)"
proof -
  have "true_probs bad_policy traj_bad_action = Inl IndexError"
    by (simp add: bad_policy_eq true_probs_def traj_bad_action_def traj0_def fancy_index_def
        index_pairs_def take_action_def)
  then have "compute_influence_reward bad_policy traj_bad_action
       = Inl (IndexError, bad_policy, traj_bad_action)"
    by (simp add: compute_influence_reward_def)
  moreover have "compute_influence_reward bad_policy traj0
       = Inl (SystemExit exit_message, bad_policy, traj0)"
    by (simp add: compute_influence_reward_def bad_policy_eq true_probs_traj0 marginal_traj0
        influence_per_agent_step_def exit_message_def)
  moreover have "influence_divergence_measure (setup_mixins blank_policy bad_config) = ''l2''"
    by (simp add: bad_config_def setup_defs)
  ultimately show ?thesis by simp
qed

lemma imul2_entry:
  assumes "imul2 d v = Inr r" and "b < length d"
  shows "length r = length d" and "length (r ! b) = length (d ! b)"
    and "n < length (d ! b) \<Longrightarrow> r ! b ! n = fmul (d ! b ! n) (visibility_at v d b n)"
    and "n < length (d ! b) \<Longrightarrow> visibility_at v d b n \<in> set (paired v (length d) b)"
proof -
  from assms(1) have outer: "broadcast_into (broadcast_into (elementwise fmul)) d v = Inr r"
    by (simp add: imul2_def)
  from broadcast_into_length [OF outer] show "length r = length d" .
  from broadcast_into_nth [OF outer assms(2)]
  have inner: "broadcast_into (elementwise fmul) (d ! b) (paired v (length d) b) = Inr (r ! b)" .
  from broadcast_into_length [OF inner] show "length (r ! b) = length (d ! b)" .
  show "r ! b ! n = fmul (d ! b ! n) (visibility_at v d b n)" if "n < length (d ! b)"
    using broadcast_into_nth [OF inner that] by (simp add: elementwise_def visibility_at_def)
  show "visibility_at v d b n \<in> set (paired v (length d) b)" if "n < length (d ! b)"
    using paired_in_set [OF inner that] by (simp add: visibility_at_def)
qed

lemma fmul_zero_finite: "isfinite a \<Longrightarrow> fmul a (Fin 0) = Fin 0"
  by (cases a) simp_all

lemma compute_influence_reward_stages:
  assumes "compute_influence_reward pol traj = Inr (pol', traj')"
  shows "\<exists>tp mp d ipas r.
           true_probs pol traj = Inr tp
         \<and> marginalize_predictions_over_own_actions pol traj = Inr mp
         \<and> influence_per_agent_step pol tp mp = Inr d
         \<and> apply_visibility pol traj d = Inr ipas
         \<and> bcast1 fadd (rewards traj)
              (map (\<lambda>x. fmul x (Fin (curr_influence_weight pol))) (influence pol ipas)) = Inr r
         \<and> pol' = pol\<lparr>steps_processed := steps_processed pol + int (length (obs traj))\<rparr>
         \<and> traj' = traj\<lparr>total_influence := Some (influence pol ipas),
                         reward_without_influence := Some (rewards traj), rewards := r\<rparr>"
  using assms
  by (auto simp: compute_influence_reward_def Let_def split: sum.splits)

text \<open>
  C7: with \<^verbatim>\<open>influence_only_when_visible\<close>, an entry of the divergence array whose
  visibility entry is 0 is 0 after the masking, whatever the divergence; a step whose
  visibility row is all zero has the summed influence 0, and the clipped influence 0
  when the clip bound is not negative.
\<close>

theorem invisible_agents_contribute_zero:
  assumes "compute_influence_reward pol traj = Inr (pol', traj')"
    and "influence_only_when_visible pol"
  shows "\<exists>tp mp d ipas ti.
           true_probs pol traj = Inr tp
         \<and> marginalize_predictions_over_own_actions pol traj = Inr mp
         \<and> influence_per_agent_step pol tp mp = Inr d
         \<and> apply_visibility pol traj d = Inr ipas
         \<and> ti = map (\<lambda>row. fclip (- influence_reward_clip pol) (influence_reward_clip pol)
                              (fsum row)) ipas
         \<and> total_influence traj' = Some ti
         \<and> length ipas = length d
         \<and> (\<forall>b<length d. length (ipas ! b) = length (d ! b)
               \<and> (\<forall>n<length (d ! b).
                     visibility_at (others_visibility traj) d b n = Fin 0 \<longrightarrow> ipas ! b ! n = Fin 0)
               \<and> (list_all (\<lambda>x. x = Fin 0) (paired (others_visibility traj) (length d) b)
                     \<longrightarrow> fsum (ipas ! b) = Fin 0
                         \<and> (0 \<le> influence_reward_clip pol \<longrightarrow> ti ! b = Fin 0)))"
proof -
  from compute_influence_reward_stages [OF assms(1)] obtain tp mp d ipas where
    tp: "true_probs pol traj = Inr tp"
    and mp: "marginalize_predictions_over_own_actions pol traj = Inr mp"
    and d: "influence_per_agent_step pol tp mp = Inr d"
    and ipas: "apply_visibility pol traj d = Inr ipas"
    and ti: "total_influence traj' = Some (influence pol ipas)"
    by auto
  let ?v = "others_visibility traj"
  let ?c = "influence_reward_clip pol"
  let ?ti = "map (\<lambda>row. fclip (- ?c) ?c (fsum row)) ipas"
  from ipas assms(2) have mul: "imul2 d ?v = Inr ipas"
    by (simp add: apply_visibility_def)
  have fin: "list_all (list_all isfinite) d"
    using d by (rule influence_per_agent_step_finite)
  have len: "length ipas = length d"
    using mul unfolding imul2_def by (rule broadcast_into_length)
  have rows: "length (ipas ! b) = length (d ! b)
        \<and> (\<forall>n<length (d ! b). visibility_at ?v d b n = Fin 0 \<longrightarrow> ipas ! b ! n = Fin 0)
        \<and> (list_all (\<lambda>x. x = Fin 0) (paired ?v (length d) b)
              \<longrightarrow> fsum (ipas ! b) = Fin 0 \<and> (0 \<le> ?c \<longrightarrow> ?ti ! b = Fin 0))"
    if b: "b < length d" for b
  proof -
    have rl: "length (ipas ! b) = length (d ! b)"
      by (rule imul2_entry(2) [OF mul b])
    have fd: "isfinite (d ! b ! n)" if "n < length (d ! b)" for n
      using fin b that by (simp add: list_all_length)
    have entry: "ipas ! b ! n = Fin 0"
      if "n < length (d ! b)" and "visibility_at ?v d b n = Fin 0" for n
      using imul2_entry(3) [OF mul b that(1)] that(2) fd [OF that(1)]
      by (simp add: fmul_zero_finite)
    have zero: "fsum (ipas ! b) = Fin 0 \<and> (0 \<le> ?c \<longrightarrow> ?ti ! b = Fin 0)"
      if z: "list_all (\<lambda>x. x = Fin 0) (paired ?v (length d) b)"
    proof -
      have "ipas ! b ! n = Fin 0" if n: "n < length (ipas ! b)" for n
      proof -
        from n rl have n': "n < length (d ! b)" by simp
        from imul2_entry(4) [OF mul b n'] z have "visibility_at ?v d b n = Fin 0"
          by (simp add: list_all_iff)
        with n' show ?thesis by (rule entry)
      qed
      then have "list_all (\<lambda>x. x = Fin 0) (ipas ! b)"
        by (simp add: list_all_length)
      then have s: "fsum (ipas ! b) = Fin 0" by (rule fsum_zeros)
      with b len show ?thesis by simp
    qed
    from rl entry zero show ?thesis by blast
  qed
  from tp mp d ipas ti len rows show ?thesis
    by (auto simp: influence_def)
qed

theorem invisible_agents_contribute_zero_witness:
  "compute_influence_reward default_policy traj_invisible =
     Inr (default_policy\<lparr>steps_processed := 1\<rparr>,
          traj_invisible\<lparr>total_influence := Some [Fin 0],
                reward_without_influence := Some [Fin 3], rewards := [Fin 3]\<rparr>)
   \<and> influence_only_when_visible default_policy
   \<and> others_visibility traj_invisible = [[Fin 0]]"
  using invisible_agents_contribute_zero [OF compute_traj_invisible] compute_traj_invisible
  by (simp add: default_policy_eq traj_invisible_def)

lemma reshape3_length: "reshape3 d0 d1 flat = Inr r \<Longrightarrow> length r = d0"
  by (auto simp: reshape3_def Let_def split: if_splits)

lemma reshape4_length: "reshape4 d0 d1 d3 flat = Inr r \<Longrightarrow> length r = d0"
  by (auto simp: reshape4_def Let_def split: if_splits)

lemma fancy_index_length:
  assumes "fancy_index a is js = Inr r" and "length js = length is"
  shows "length r = length is"
  using assms
  by (auto simp: fancy_index_def index_pairs_def dest!: sequence_length
      split: ndarray.splits sum.splits if_splits)

lemma true_probs_length:
  assumes "true_probs pol traj = Inr tp" and "length (actions traj) = length (obs traj)"
  shows "length tp = length (obs traj)"
proof -
  from assms(1) obtain t0 t1 where
    t0: "fancy_index (counterfactual_actions traj) [0..<length (obs traj)] (actions traj) = Inr t0"
    and t1: "reshape3 (length t0) (num_other_agents pol) (concat (concat t0)) = Inr t1"
    and tp: "tp = map (map (\<lambda>row. normalize (softmax row))) t1"
    by (auto simp: true_probs_def split: sum.splits)
  from fancy_index_length [OF t0] assms(2) have "length t0 = length (obs traj)" by simp
  with reshape3_length [OF t1] tp show ?thesis by simp
qed

lemma marginalize_length:
  assumes "marginalize_predictions_over_own_actions pol traj = Inr mp"
  shows "length mp = shape0 (counterfactual_actions traj)"
proof -
  let ?ap = "map normalize (map softmax (action_logits traj))"
  from assms obtain cp m where
    cp: "reshape4 (shape0 (counterfactual_actions traj)) (num_other_agents pol) (last_dim ?ap)
           (ravel (counterfactual_actions traj)) = Inr cp"
    and m: "bcast3 fmul (map (map (sum_rows (last_dim ?ap))) (map (map (map softmax)) cp))
              (tile (num_other_agents pol) ?ap) = Inr m"
    and mp: "mp = map (map normalize) m"
    by (auto simp: marginalize_predictions_over_own_actions_def Let_def split: sum.splits)
  have "length (map (map (sum_rows (last_dim ?ap))) (map (map (map softmax)) cp))
          = length (tile (num_other_agents pol) ?ap)
        \<or> length (tile (num_other_agents pol) ?ap) = 1"
    by (simp add: tile_def)
  with m [unfolded bcast3_def]
  have "length m = length (map (map (sum_rows (last_dim ?ap))) (map (map (map softmax)) cp))"
    by (rule broadcast_length)
  with reshape4_length [OF cp] mp show ?thesis by simp
qed

lemma kl_div_length:
  assumes "kl_div p q = Inr r" and "length p = length q"
  shows "length r = length p"
proof -
  from assms(1) obtain w where w: "bcast3 kl_term p q = Inr w" and "length r = length w"
    by (auto simp: kl_div_def Let_def split: sum.splits if_splits)
  moreover from assms(2) have "length p = length q \<or> length q = 1" by simp
  with w [unfolded bcast3_def] have "length w = length p" by (rule broadcast_length)
  ultimately show ?thesis by simp
qed

lemma jsd_length:
  assumes "jsd p q = Inr r" and "length p = length q"
  shows "length r = length p"
proof -
  from assms(1) obtain s k1 k2 where
    s: "bcast3 fadd p q = Inr s"
    and k1: "kl_div p (map (map (map (fmul (Fin (1/2))))) s) = Inr k1"
    and k2: "kl_div q (map (map (map (fmul (Fin (1/2))))) s) = Inr k2"
    and r: "bcast2 fadd (map (map (fmul (Fin (1/2)))) k1) (map (map (fmul (Fin (1/2)))) k2) = Inr r"
    by (auto simp: jsd_def Let_def split: sum.splits)
  from assms(2) have "length p = length q \<or> length q = 1" by simp
  with s [unfolded bcast3_def] have ls: "length s = length p" by (rule broadcast_length)
  from kl_div_length [OF k1] ls have l1: "length k1 = length p" by simp
  from kl_div_length [OF k2] ls assms(2) have l2: "length k2 = length p" by simp
  from l1 l2 have "length (map (map (fmul (Fin (1/2)))) k1) = length (map (map (fmul (Fin (1/2)))) k2)
      \<or> length (map (map (fmul (Fin (1/2)))) k2) = 1" by simp
  with r [unfolded bcast2_def] have "length r = length (map (map (fmul (Fin (1/2)))) k1)"
    by (rule broadcast_length)
  with l1 show ?thesis by simp
qed

lemma influence_per_agent_step_length:
  assumes "influence_per_agent_step pol tp mp = Inr d" and "length tp = length mp"
  shows "length d = length tp"
  using assms
  by (auto simp: influence_per_agent_step_def dest: kl_div_length jsd_length split: if_splits)

lemma apply_visibility_length:
  assumes "apply_visibility pol traj d = Inr ipas"
  shows "length ipas = length d"
  using assms
  by (auto simp: apply_visibility_def imul2_def dest: broadcast_into_length split: if_splits)

lemma apply_visibility_finite:
  assumes "apply_visibility pol traj d = Inr ipas"
    and "list_all (list_all isfinite) d"
    and "list_all (list_all isfinite) (others_visibility traj)"
  shows "list_all (list_all isfinite) ipas"
proof (cases "influence_only_when_visible pol")
  case False
  with assms(1,2) show ?thesis by (simp add: apply_visibility_def)
next
  case True
  let ?v = "others_visibility traj"
  from assms(1) True have mul: "imul2 d ?v = Inr ipas"
    by (simp add: apply_visibility_def)
  then have outer: "broadcast_into (broadcast_into (elementwise fmul)) d ?v = Inr ipas"
    by (simp add: imul2_def)
  have len: "length ipas = length d"
    using outer by (rule broadcast_into_length)
  have "isfinite (ipas ! b ! n)" if b: "b < length ipas" and n: "n < length (ipas ! b)" for b n
  proof -
    from b len have b': "b < length d" by simp
    from n imul2_entry(2) [OF mul b'] have n': "n < length (d ! b)" by simp
    from paired_in_set [OF outer b'] assms(3)
    have "list_all isfinite (paired ?v (length d) b)" by (simp add: list_all_iff)
    with imul2_entry(4) [OF mul b' n'] have "isfinite (visibility_at ?v d b n)"
      by (simp add: list_all_iff)
    moreover from assms(2) b' n' have "isfinite (d ! b ! n)"
      by (simp add: list_all_length)
    ultimately show ?thesis
      using imul2_entry(3) [OF mul b' n'] by (simp add: fmul_finite)
  qed
  then show ?thesis by (simp add: list_all_length)
qed

lemma fclip_bounds:
  assumes "isfinite x" and "0 \<le> c"
  shows "\<exists>v. fclip (- c) c x = Fin v \<and> \<bar>v\<bar> \<le> c"
  using assms by (cases x) auto

text \<open>
  What holds of every call that returns, on a trajectory whose fields agree on the number
  of steps and whose visibility entries are finite, with a clip bound that is not
  negative: \<^verbatim>\<open>total_influence\<close> is the sum over the last axis of the masked array
  \<^verbatim>\<open>influence_per_agent_step\<close>, clipped to the symmetric interval;
  \<^verbatim>\<open>reward_without_influence\<close> is the original \<^verbatim>\<open>rewards\<close>; and at every step the new
  reward is the original one plus the influence times \<^verbatim>\<open>curr_influence_weight\<close>. Which
  axis the last axis of that array is, the statement leaves open.
\<close>

lemma influence_summed_clipped_added:
  assumes "compute_influence_reward pol traj = Inr (pol', traj')"
    and "length (actions traj) = length (obs traj)"
    and "shape0 (counterfactual_actions traj) = length (obs traj)"
    and "length (rewards traj) = length (obs traj)"
    and "list_all (list_all isfinite) (others_visibility traj)"
    and "0 \<le> influence_reward_clip pol"
  shows "\<exists>tp mp d ipas ti.
           true_probs pol traj = Inr tp
         \<and> marginalize_predictions_over_own_actions pol traj = Inr mp
         \<and> influence_per_agent_step pol tp mp = Inr d
         \<and> apply_visibility pol traj d = Inr ipas
         \<and> ti = map (\<lambda>row. fclip (- influence_reward_clip pol) (influence_reward_clip pol)
                              (fsum row)) ipas
         \<and> total_influence traj' = Some ti
         \<and> reward_without_influence traj' = Some (rewards traj)
         \<and> length ti = length (obs traj)
         \<and> length (rewards traj') = length (obs traj)
         \<and> (\<forall>b<length (obs traj).
               rewards traj' ! b
                 = fadd (rewards traj ! b) (fmul (ti ! b) (Fin (curr_influence_weight pol)))
               \<and> (\<exists>v. ti ! b = Fin v \<and> \<bar>v\<bar> \<le> influence_reward_clip pol))"
proof -
  from compute_influence_reward_stages [OF assms(1)] obtain tp mp d ipas r where
    tp: "true_probs pol traj = Inr tp"
    and mp: "marginalize_predictions_over_own_actions pol traj = Inr mp"
    and d: "influence_per_agent_step pol tp mp = Inr d"
    and ipas: "apply_visibility pol traj d = Inr ipas"
    and r: "bcast1 fadd (rewards traj)
              (map (\<lambda>x. fmul x (Fin (curr_influence_weight pol))) (influence pol ipas)) = Inr r"
    and traj': "traj' = traj\<lparr>total_influence := Some (influence pol ipas),
                         reward_without_influence := Some (rewards traj), rewards := r\<rparr>"
    by auto
  let ?c = "influence_reward_clip pol"
  let ?w = "curr_influence_weight pol"
  let ?B = "length (obs traj)"
  let ?ti = "map (\<lambda>row. fclip (- ?c) ?c (fsum row)) ipas"
  have ti: "influence pol ipas = ?ti" by (simp add: influence_def)
  have ltp: "length tp = ?B"
    using tp assms(2) by (rule true_probs_length)
  have lmp: "length mp = ?B"
    using marginalize_length [OF mp] assms(3) by simp
  have ld: "length d = ?B"
    using influence_per_agent_step_length [OF d] ltp lmp by simp
  have lipas: "length ipas = ?B"
    using apply_visibility_length [OF ipas] ld by simp
  have fin: "list_all (list_all isfinite) ipas"
    using ipas influence_per_agent_step_finite [OF d] assms(5) by (rule apply_visibility_finite)
  have "length (rewards traj) = length (map (\<lambda>x. fmul x (Fin ?w)) ?ti)"
    using assms(4) lipas by simp
  then have "bcast1 fadd (rewards traj) (map (\<lambda>x. fmul x (Fin ?w)) ?ti)
               = Inr (map2 fadd (rewards traj) (map (\<lambda>x. fmul x (Fin ?w)) ?ti))"
    by (rule bcast1_same_length)
  with r [unfolded ti]
  have "Inr r = (Inr (map2 fadd (rewards traj) (map (\<lambda>x. fmul x (Fin ?w)) ?ti)) :: error + arr1)"
    by (rule trans [OF sym])
  then have r_eq: "r = map2 fadd (rewards traj) (map (\<lambda>x. fmul x (Fin ?w)) ?ti)"
    by (simp only: sum.inject)
  have step: "r ! b = fadd (rewards traj ! b) (fmul (?ti ! b) (Fin ?w))
         \<and> (\<exists>v. ?ti ! b = Fin v \<and> \<bar>v\<bar> \<le> ?c)" if b: "b < ?B" for b
  proof -
    from b lipas fin have "list_all isfinite (ipas ! b)"
      by (simp add: list_all_length)
    then have "isfinite (fsum (ipas ! b))" by (rule fsum_finite)
    from fclip_bounds [OF this assms(6)] b lipas
    have "\<exists>v. ?ti ! b = Fin v \<and> \<bar>v\<bar> \<le> ?c" by simp
    moreover from b lipas assms(4) have "r ! b = fadd (rewards traj ! b) (fmul (?ti ! b) (Fin ?w))"
      unfolding r_eq by simp
    ultimately show ?thesis by blast
  qed
  have lr: "length r = ?B"
    unfolding r_eq using assms(4) lipas by simp
  from tp mp d ipas ti traj' lipas lr step show ?thesis
    by auto
qed

text \<open>
  C6 fails on the code: on two steps with one other agent, the array
  \<^verbatim>\<open>influence_per_agent_step\<close> has the shape \<^verbatim>\<open>[2, 2]\<close> instead of \<^verbatim>\<open>[B, N] = [2, 1]\<close>,
  because the marginal has the shape \<^verbatim>\<open>[2, 2, 2]\<close>: its last axis pairs the step with
  every step of the batch. The sum over it is twice the divergence of the one other
  agent, and that is what \<^verbatim>\<open>total_influence\<close> and \<^verbatim>\<open>rewards\<close> receive; the sum over the
  axis of the other agents is \<open>influence0\<close> at either step.
\<close>

theorem influence_summed_over_batch_axis:
  "num_other_agents default_policy = 1
   \<and> true_probs default_policy traj_pair
       = Inr [[[Fin (1/2), Fin (1/2)]], [[Fin (1/2), Fin (1/2)]]]
   \<and> marginalize_predictions_over_own_actions default_policy traj_pair
       = Inr [[[Fin (5/12), Fin (7/12)], [Fin (5/12), Fin (7/12)]],
              [[Fin (5/12), Fin (7/12)], [Fin (5/12), Fin (7/12)]]]
   \<and> influence_per_agent_step default_policy
         [[[Fin (1/2), Fin (1/2)]], [[Fin (1/2), Fin (1/2)]]]
         [[[Fin (5/12), Fin (7/12)], [Fin (5/12), Fin (7/12)]],
          [[Fin (5/12), Fin (7/12)], [Fin (5/12), Fin (7/12)]]]
       = Inr [[Fin influence0, Fin influence0], [Fin influence0, Fin influence0]]
   \<and> compute_influence_reward default_policy traj_pair
       = Inr (default_policy\<lparr>steps_processed := 2\<rparr>,
              traj_pair\<lparr>total_influence := Some [Fin (2 * influence0), Fin (2 * influence0)],
                        reward_without_influence := Some [Fin 3, Fin 3],
                        rewards := [Fin (3 + 2 * influence0), Fin (3 + 2 * influence0)]\<rparr>)
   \<and> influence_claim default_policy traj_pair = Inr [Fin influence0, Fin influence0]
   \<and> 2 * influence0 \<noteq> influence0"
proof -
  have clip2: "min (max (2 * influence0) (- 10)) 10 = 2 * influence0"
    using influence0_bounds(1) influence0_le by simp
  have clip1: "min (max influence0 (- 10)) 10 = influence0"
    using influence0_bounds by simp
  have vis: "apply_visibility default_policy traj_pair
               [[Fin influence0, Fin influence0], [Fin influence0, Fin influence0]]
             = Inr [[Fin influence0, Fin influence0], [Fin influence0, Fin influence0]]"
    by (simp add: apply_visibility_def default_policy_eq traj_pair_def imul2_def
        broadcast_into_def elementwise_def)
  have vis1: "apply_visibility default_policy traj_pair [[Fin influence0], [Fin influence0]]
             = Inr [[Fin influence0], [Fin influence0]]"
    by (simp add: apply_visibility_def default_policy_eq traj_pair_def imul2_def
        broadcast_into_def elementwise_def)
  have infl: "influence default_policy
                [[Fin influence0, Fin influence0], [Fin influence0, Fin influence0]]
              = [Fin (2 * influence0), Fin (2 * influence0)]"
    by (simp add: influence_def default_policy_eq clip2)
  have infl1: "influence default_policy [[Fin influence0], [Fin influence0]]
              = [Fin influence0, Fin influence0]"
    by (simp add: influence_def default_policy_eq clip1)
  have code: "compute_influence_reward default_policy traj_pair
       = Inr (default_policy\<lparr>steps_processed := 2\<rparr>,
              traj_pair\<lparr>total_influence := Some [Fin (2 * influence0), Fin (2 * influence0)],
                        reward_without_influence := Some [Fin 3, Fin 3],
                        rewards := [Fin (3 + 2 * influence0), Fin (3 + 2 * influence0)]\<rparr>)"
    unfolding compute_influence_reward_def true_probs_traj_pair marginal_traj_pair sum.case
      divergence_traj_pair vis infl
    by (simp add: default_policy_eq traj_pair_def bcast1_def broadcast_def elementwise_def)
  have claim: "influence_claim default_policy traj_pair = Inr [Fin influence0, Fin influence0]"
    unfolding influence_claim_def true_probs_traj_pair marginal_claim_traj_pair sum.case
      divergence_claim_traj_pair vis1 infl1 ..
  have "2 * influence0 \<noteq> influence0"
    using influence0_bounds(1) by simp
  moreover have "num_other_agents default_policy = 1"
    by (simp add: default_policy_eq)
  ultimately show ?thesis
    using true_probs_traj_pair marginal_traj_pair divergence_traj_pair code claim by simp
qed

text \<open>
  C2 fails on the code: on a freshly set up policy the call multiplies the influence by
  the stored \<^verbatim>\<open>curr_influence_weight\<close> 1 and leaves it 1, where the schedule gives weight
  0 at \<^verbatim>\<open>steps_processed\<close> 0 and 1/10000000 at 1; \<open>compute_influence_reward\<close> never runs
  \<open>current_influence_curriculum_weight\<close>.
\<close>

theorem stored_weight_applied_not_schedule:
  "compute_influence_reward default_policy traj0 =
     Inr (default_policy\<lparr>steps_processed := 1\<rparr>,
          traj0\<lparr>total_influence := Some [Fin influence0],
                reward_without_influence := Some [Fin 3],
                rewards := [Fin (3 + influence0 * 1)]\<rparr>)
   \<and> curr_influence_weight (default_policy\<lparr>steps_processed := 1\<rparr>) = 1
   \<and> current_influence_curriculum_weight default_policy
       = Inr (default_policy\<lparr>curr_influence_weight := 0\<rparr>)
   \<and> current_influence_curriculum_weight (default_policy\<lparr>steps_processed := 1\<rparr>)
       = Inr (default_policy\<lparr>steps_processed := 1, curr_influence_weight := 1 / 10000000\<rparr>)
   \<and> 3 + influence0 * 1 \<noteq> 3 + influence0 * 0
   \<and> 3 + influence0 * 1 \<noteq> 3 + influence0 * (1 / 10000000)"
proof -
  have "current_influence_curriculum_weight default_policy
       = Inr (default_policy\<lparr>curr_influence_weight := 0\<rparr>)"
    by (simp add: current_influence_curriculum_weight_def default_policy_eq)
  moreover have "current_influence_curriculum_weight (default_policy\<lparr>steps_processed := 1\<rparr>)
       = Inr (default_policy\<lparr>steps_processed := 1, curr_influence_weight := 1 / 10000000\<rparr>)"
    by (simp add: current_influence_curriculum_weight_def default_policy_eq)
  moreover have "curr_influence_weight (default_policy\<lparr>steps_processed := 1\<rparr>) = 1"
    by (simp add: default_policy_eq)
  moreover have "3 + influence0 * 1 \<noteq> 3 + influence0 * 0"
    "3 + influence0 * 1 \<noteq> 3 + influence0 * (1 / 10000000)"
    using influence0_bounds(1) by simp_all
  ultimately show ?thesis using compute_traj0 by simp
qed

section \<open>Properties of the marginalization engine\<close>

text \<open>
  C1 fails on the code: with own action probabilities (1/3, 2/3) and uniform
  counterfactual predictions the weighted sum of the claim is (1/2, 1/2), and the code
  returns (1/3, 2/3). With two steps and one other agent the result has the shape
  \<^verbatim>\<open>[2, 2, 2]\<close> instead of \<^verbatim>\<open>[2, 1, 2]\<close>; with two steps and two other agents the
  multiplication by the tiled action probabilities raises \<^verbatim>\<open>ValueError\<close>.
\<close>

theorem marginalize_not_weighted_sum:
  "marginalize_predictions_over_own_actions default_policy traj_marg
     = Inr [[[Fin (1/3), Fin (2/3)]]]
   \<and> marginal_claim default_policy traj_marg = Inr [[[Fin (1/2), Fin (1/2)]]]
   \<and> marginalize_predictions_over_own_actions default_policy traj_two_steps
     = Inr [[[Fin (1/2), Fin (1/2)], [Fin (1/2), Fin (1/2)]],
            [[Fin (1/2), Fin (1/2)], [Fin (1/2), Fin (1/2)]]]
   \<and> marginal_claim default_policy traj_two_steps
     = Inr [[[Fin (1/2), Fin (1/2)]], [[Fin (1/2), Fin (1/2)]]]
   \<and> marginalize_predictions_over_own_actions (default_policy\<lparr>num_other_agents := 2\<rparr>)
       traj_two_agents = Inl ValueError"
proof -
  have "marginalize_predictions_over_own_actions default_policy traj_marg
     = Inr [[[Fin (1/3), Fin (2/3)]]]"
    by (simp add: marginalize_predictions_over_own_actions_def default_policy_eq traj_marg_def
        array_defs)
  moreover have "marginal_claim default_policy traj_marg = Inr [[[Fin (1/2), Fin (1/2)]]]"
    by (simp add: marginal_claim_def weighted_sum_def default_policy_eq traj_marg_def array_defs)
  moreover have "marginalize_predictions_over_own_actions default_policy traj_two_steps
     = Inr [[[Fin (1/2), Fin (1/2)], [Fin (1/2), Fin (1/2)]],
            [[Fin (1/2), Fin (1/2)], [Fin (1/2), Fin (1/2)]]]"
    by (simp add: marginalize_predictions_over_own_actions_def default_policy_eq
        traj_two_steps_def array_defs)
  moreover have "marginal_claim default_policy traj_two_steps
     = Inr [[[Fin (1/2), Fin (1/2)]], [[Fin (1/2), Fin (1/2)]]]"
    by (simp add: marginal_claim_def weighted_sum_def default_policy_eq traj_two_steps_def
        array_defs)
  moreover have "marginalize_predictions_over_own_actions
       (default_policy\<lparr>num_other_agents := 2\<rparr>) traj_two_agents = Inl ValueError"
    by (simp add: marginalize_predictions_over_own_actions_def default_policy_eq
        traj_two_agents_def traj_two_steps_def array_defs numeral_2_eq_2 upt_rec)
  ultimately show ?thesis by simp
qed

end
